theory Spec2Isabelle
  imports Main "HOL-Library.Code_Target_Numeral"
begin

text \<open>
  A model of \<^verbatim>\<open>src/collect.js\<close>, the collector of ERC20 transfer events: the choice of
  the chain from the command line, the set-up of the table, the loop that pulls pages
  from the event stream, decodes their logs, buffers the rows and inserts them in
  batches, and the final flush.

  The script's variables are the fields of a state record that every function takes and
  returns. The outside world is input: the pages the stream delivers (a finite list,
  after which \<^verbatim>\<open>recv\<close> returns \<^verbatim>\<open>null\<close>), the decoder's answer for each log, and
  whether each insert call returns or throws. What the script does to the outside is
  recorded in the state: the insert calls, the DDL commands and the console lines.
  Elapsed time and throughput, which only appear in console lines, are left out; the DDL
  commands, the decoder and \<^verbatim>\<open>clickhouse.close\<close> are taken not to throw.
\<close>

section \<open>Decimal text of numbers\<close>

text \<open>
  \<^verbatim>\<open>collect.js\<close> turns numbers into text in two places: the template literals that
  interpolate \<^verbatim>\<open>CHAIN_ID\<close>, and \<^verbatim>\<open>value.toString()\<close> on the BigInt transfer value.
  Both print an integer in base ten, with a leading minus sign for a negative one.
\<close>

definition digit_char :: "nat \<Rightarrow> char" where
  "digit_char d = char_of (48 + d)"

fun nat_toString :: "nat \<Rightarrow> string" where
  "nat_toString n =
     (if n < 10 then [digit_char n]
      else nat_toString (n div 10) @ [digit_char (n mod 10)])"

definition int_toString :: "int \<Rightarrow> string" where
  "int_toString i =
     (if i < 0 then CHR ''-'' # nat_toString (nat (- i)) else nat_toString (nat i))"


definition dec_digits_value :: "string \<Rightarrow> nat" where
  "dec_digits_value s = foldl (\<lambda>acc c. acc * 10 + (of_char c - 48)) 0 s"


section \<open>Chain selection (collect.js, lines 14--48)\<close>

record chain_info =
  name :: string
  hypersyncUrl :: string

text \<open>\<^verbatim>\<open>CHAIN_CONFIG\<close>, in the order of the source.\<close>

definition CHAIN_CONFIG :: "(int \<times> chain_info) list" where
  "CHAIN_CONFIG =
     [(1, \<lparr>name = ''Ethereum'', hypersyncUrl = ''http://1.hypersync.xyz''\<rparr>),
      (10, \<lparr>name = ''Optimism'', hypersyncUrl = ''http://10.hypersync.xyz''\<rparr>),
      (56, \<lparr>name = ''BSC'', hypersyncUrl = ''http://56.hypersync.xyz''\<rparr>),
      (130, \<lparr>name = ''Unichain'', hypersyncUrl = ''http://130.hypersync.xyz''\<rparr>),
      (137, \<lparr>name = ''Polygon'', hypersyncUrl = ''http://137.hypersync.xyz''\<rparr>),
      (480, \<lparr>name = ''World Chain'', hypersyncUrl = ''http://480.hypersync.xyz''\<rparr>),
      (1868, \<lparr>name = ''Lightlink'', hypersyncUrl = ''http://1868.hypersync.xyz''\<rparr>),
      (7777777, \<lparr>name = ''Zora'', hypersyncUrl = ''http://7777777.hypersync.xyz''\<rparr>),
      (8453, \<lparr>name = ''Base'', hypersyncUrl = ''http://8453.hypersync.xyz''\<rparr>),
      (42161, \<lparr>name = ''Arbitrum'', hypersyncUrl = ''http://42161.hypersync.xyz''\<rparr>),
      (43114, \<lparr>name = ''Avalanche'', hypersyncUrl = ''http://43114.hypersync.xyz''\<rparr>),
      (81457, \<lparr>name = ''Blast'', hypersyncUrl = ''http://81457.hypersync.xyz''\<rparr>)]"

text \<open>
  The result of \<^verbatim>\<open>parseInt\<close>: \<open>NaN\<close>, or an integral number. \<open>Num i\<close> carries the
  mathematical integer; minus zero is \<open>Num 0\<close> (both are falsy). JavaScript rounds an
  integer beyond \<open>2^53\<close> to a double; the rounded number is still non-zero and still no
  key of \<^verbatim>\<open>CHAIN_CONFIG\<close>, whose keys are all small, so the run is the same.
\<close>

datatype js_number = NaN | Num int

text \<open>
  \<^verbatim>\<open>parseInt(string)\<close> with no radix, after ECMAScript: the argument is converted to a
  string (\<^verbatim>\<open>undefined\<close> becomes the text "undefined"), leading white space is dropped,
  an optional sign is read, a prefix \<^verbatim>\<open>0x\<close> or \<^verbatim>\<open>0X\<close> selects radix 16, and the longest
  run of digits of the radix is the value; no digit at all gives \<open>NaN\<close>. Characters are
  the code units below 256.
\<close>

definition is_white_space :: "char \<Rightarrow> bool" where
  "is_white_space c = (of_char c \<in> {9, 10, 11, 12, 13, 32, 160 :: nat})"

definition digit_of :: "char \<Rightarrow> nat option" where
  "digit_of c =
     (let k = (of_char c :: nat) in
      if 48 \<le> k \<and> k \<le> 57 then Some (k - 48)
      else if 97 \<le> k \<and> k \<le> 122 then Some (k - 87)
      else if 65 \<le> k \<and> k \<le> 90 then Some (k - 55)
      else None)"

definition is_radix_digit :: "nat \<Rightarrow> char \<Rightarrow> bool" where
  "is_radix_digit radix c = (case digit_of c of None \<Rightarrow> False | Some d \<Rightarrow> d < radix)"

definition parseInt :: "string option \<Rightarrow> js_number" where
  "parseInt arg =
     (let inputString = (case arg of None \<Rightarrow> ''undefined'' | Some s \<Rightarrow> s);
          S = dropWhile is_white_space inputString;
          neg = (case S of [] \<Rightarrow> False | c # _ \<Rightarrow> c = CHR ''-'');
          S1 = (case S of [] \<Rightarrow> [] | c # r \<Rightarrow> if c = CHR ''-'' \<or> c = CHR ''+'' then r else S);
          hex = (case S1 of a # b # _ \<Rightarrow> a = CHR ''0'' \<and> (b = CHR ''x'' \<or> b = CHR ''X'') | _ \<Rightarrow> False);
          R = (if hex then 16 else 10);
          S2 = (if hex then drop 2 S1 else S1);
          Z = takeWhile (is_radix_digit R) S2;
          mathInt = foldl (\<lambda>acc c. acc * R + (case digit_of c of None \<Rightarrow> 0 | Some d \<Rightarrow> d)) 0 Z
      in if Z = [] then NaN
         else Num ((if neg then - 1 else 1) * int mathInt))"

text \<open>
  \<^verbatim>\<open>const CHAIN_ID = parseInt(process.argv[2]) || 130\<close>: \<open>NaN\<close> and \<open>0\<close> are falsy. The
  argument is \<open>None\<close> when the command line has no third entry.
\<close>

definition CHAIN_ID :: "string option \<Rightarrow> int" where
  "CHAIN_ID argv2 = (case parseInt argv2 of NaN \<Rightarrow> 130 | Num i \<Rightarrow> if i = 0 then 130 else i)"

text \<open>
  The text printed after "Available chains:". \<^verbatim>\<open>Object.keys\<close> lists integer keys in
  ascending numeric order.
\<close>

definition join :: "string \<Rightarrow> string list \<Rightarrow> string" where
  "join sep xs = (case xs of [] \<Rightarrow> [] | x # r \<Rightarrow> foldl (\<lambda>acc y. acc @ sep @ y) x r)"

definition available_chains :: string where
  "available_chains =
     join '', ''
       (map (\<lambda>id. int_toString id @ '' ('' @
                    (case map_of CHAIN_CONFIG id of None \<Rightarrow> [] | Some c \<Rightarrow> name c) @ '')'')
            (sort (map fst CHAIN_CONFIG)))"

section \<open>Data of the ingestion loop\<close>

text \<open>
  A block and a log as the event source delivers them. Every field the code reads is
  optional (\<open>None\<close> is \<^verbatim>\<open>undefined\<close>). \<open>blockNumber\<close> is the field of the client's log
  type that names the log's containing block; \<^verbatim>\<open>collect.js\<close> neither selects nor reads
  it. \<open>topics\<close> and \<open>data\<close> are what the decoder works on.
\<close>

record block =
  number :: "nat option"
  timestamp :: "nat option"

record raw_log =
  address :: "string option"
  logIndex :: "nat option"
  transactionHash :: "string option"
  blockNumber :: "nat option"
  topics :: "string list"
  data :: string

text \<open>
  A decoded event of the signature
  \<^verbatim>\<open>Transfer(address indexed from, address indexed to, uint256 value)\<close>: the \<^verbatim>\<open>val\<close> of
  each indexed slot is an address text, the \<^verbatim>\<open>val\<close> of each body slot a BigInt.
\<close>

record decoded_event =
  indexed :: "string list"
  body :: "int list"

record page_data =
  logs :: "raw_log list option"
  blocks :: "block list option"

record page =
  data_of :: "page_data option"
  nextBlock :: nat

text \<open>
  \<open>blockTimestamp\<close> is the first 19 characters of \<^verbatim>\<open>toISOString()\<close> with the \<^verbatim>\<open>T\<close>
  replaced by a space, either of the block's epoch second or of the wall clock. The text
  is kept symbolic: \<open>BlockTime t\<close> is the text for epoch second \<open>t\<close>, \<open>WallClock\<close> the
  text for the moment the page is processed.
\<close>

datatype timestamp_text = BlockTime nat | WallClock

text \<open>The row handed to \<^verbatim>\<open>clickhouse.insert\<close>; \<open>value_str\<close> is the field \<^verbatim>\<open>value\<close>.\<close>

record transfer_record =
  block_number :: nat
  block_timestamp :: timestamp_text
  log_index :: nat
  transaction_hash :: string
  contract_address :: string
  from_address :: string
  to_address :: string
  value_str :: string

text \<open>One call of \<^verbatim>\<open>clickhouse.insert\<close>, with whether it returned or threw.\<close>

record insert_call =
  table :: string
  rows :: "transfer_record list"
  succeeded :: bool

datatype command = CreateDatabase | DropTable string | CreateTable string

text \<open>The lines written to the console, one constructor per message of the source.\<close>

datatype console_line =
    UnsupportedChain int
  | AvailableChains string
  | Collecting string int
  | SettingUp string
  | TableReady string
  | Starting
  | ReachedTip
  | SampleEvent nat timestamp_text nat string string string string string
  | ErrorProcessing
  | Inserted nat
  | ErrorInsertingBatch
  | Progress nat nat nat
  | InsertedFinal nat
  | ErrorInsertingFinal
  | ScanComplete nat
  | TotalValue string
  | AllSaved string
  | ConnectionClosed
  | FatalError

text \<open>
  The mutable variables of \<^verbatim>\<open>main\<close> (\<open>totalEvents\<close>, \<open>totalTransferValue\<close>,
  \<open>transferBatch\<close>), the cursor \<^verbatim>\<open>query.fromBlock\<close>, and what the outside has seen:
  the insert calls, the DDL commands, whether \<^verbatim>\<open>client.stream\<close> was called, and the
  console.
\<close>

record state =
  totalEvents :: nat
  totalTransferValue :: int
  transferBatch :: "transfer_record list"
  fromBlock :: nat
  inserts :: "insert_call list"
  commands :: "command list"
  streaming :: bool
  console :: "console_line list"

definition initial_state :: state where
  "initial_state =
     \<lparr>totalEvents = 0, totalTransferValue = 0, transferBatch = [], fromBlock = 0,
      inserts = [], commands = [], streaming = False, console = []\<rparr>"

text \<open>
  The collaborators: the decoder applied to one log (\<open>None\<close> is the \<^verbatim>\<open>null\<close> entry of
  \<^verbatim>\<open>decodeLogs\<close>), whether the \<open>n\<close>-th call of \<^verbatim>\<open>clickhouse.insert\<close> (counted from 0)
  returns, and the batch capacity. The source fixes the capacity at \<open>BATCH_SIZE\<close>.
\<close>

record env =
  decodeLog :: "raw_log \<Rightarrow> decoded_event option"
  insert_ok :: "nat \<Rightarrow> bool"
  batch_size :: nat

definition BATCH_SIZE :: nat where
  "BATCH_SIZE = 1000"

text \<open>What \<^verbatim>\<open>stream.recv()\<close> does before it returns \<^verbatim>\<open>null\<close>: deliver a page, or reject.\<close>

datatype recv = Res page | Rejects

section \<open>Table setup and the sink writer (collect.js, lines 66--146)\<close>

definition say :: "console_line \<Rightarrow> state \<Rightarrow> state" where
  "say l st = st\<lparr>console := console st @ [l]\<rparr>"

text \<open>
  \<^verbatim>\<open>initializeDatabase\<close>: three DDL commands, taken to succeed, around two console
  lines; returns the table name.
\<close>

definition initializeDatabase :: "int \<Rightarrow> state \<Rightarrow> string \<times> state" where
  "initializeDatabase cid st =
     (let tableName = ''erc20_transfers_'' @ int_toString cid;
          st1 = say (SettingUp tableName) st;
          st2 = st1\<lparr>commands := commands st1 @
                  [CreateDatabase, DropTable tableName, CreateTable tableName]\<rparr>
      in (tableName, say (TableReady tableName) st2))"

text \<open>
  \<^verbatim>\<open>insertTransferBatch\<close>: nothing is sent for an empty batch; otherwise one call of
  \<^verbatim>\<open>clickhouse.insert\<close>, whose failure propagates to the caller (\<open>False\<close>).
\<close>

definition insertTransferBatch ::
    "env \<Rightarrow> transfer_record list \<Rightarrow> string \<Rightarrow> state \<Rightarrow> bool \<times> state" where
  "insertTransferBatch e transfers tableName st =
     (if length transfers = 0 then (True, st)
      else
        (let ok = insert_ok e (length (inserts st))
         in (ok, st\<lparr>inserts := inserts st @
                     [\<lparr>table = ''token_intelligence.'' @ tableName, rows = transfers,
                       succeeded = ok\<rparr>]\<rparr>)))"

section \<open>The ingestion loop (collect.js, lines 148--313)\<close>

text \<open>\<^verbatim>\<open>x || d\<close> on an optional text and on an optional number.\<close>

definition or_text :: "string option \<Rightarrow> string \<Rightarrow> string" where
  "or_text x d = (case x of None \<Rightarrow> d | Some s \<Rightarrow> if s = [] then d else s)"

definition or_number :: "nat option \<Rightarrow> nat \<Rightarrow> nat" where
  "or_number x d = (case x of None \<Rightarrow> d | Some n \<Rightarrow> if n = 0 then d else n)"

text \<open>\<^verbatim>\<open>xs[i]?.val\<close> for \<open>i = 0\<close> and \<open>i = 1\<close>: \<open>None\<close> when the slot does not exist.\<close>

definition slot :: "'a list \<Rightarrow> nat \<Rightarrow> 'a option" where
  "slot xs i = (if i < length xs then Some (xs ! i) else None)"

text \<open>
  The row built at lines 209--234 from a decoded event and its original log, under the
  \<^verbatim>\<open>blockNumber\<close> and \<^verbatim>\<open>blockTimestamp\<close> computed for the page (\<open>block_no\<close>,
  \<open>block_ts\<close>). \<open>transfer_value\<close> is \<^verbatim>\<open>log.body[0]?.val || BigInt(0)\<close>.
\<close>

definition transfer_value :: "decoded_event \<Rightarrow> int" where
  "transfer_value log = (case slot (body log) 0 of None \<Rightarrow> 0 | Some v \<Rightarrow> if v = 0 then 0 else v)"

definition make_record ::
    "nat \<Rightarrow> timestamp_text \<Rightarrow> decoded_event \<Rightarrow> raw_log \<Rightarrow> transfer_record" where
  "make_record block_no block_ts log originalLog =
     \<lparr>block_number = block_no,
      block_timestamp = block_ts,
      log_index = or_number (logIndex originalLog) 0,
      transaction_hash = or_text (transactionHash originalLog) ''0x0'',
      contract_address = or_text (address originalLog) ''0x0'',
      from_address = or_text (slot (indexed log) 0) ''0x0'',
      to_address = or_text (slot (indexed log) 1) ''0x0'',
      value_str = int_toString (transfer_value log)\<rparr>"

text \<open>
  One turn of the \<^verbatim>\<open>for\<close> loop (lines 198--254). The flag is \<open>printedEventThisBatch\<close>.
  A \<^verbatim>\<open>null\<close> decoded log is skipped by \<^verbatim>\<open>continue\<close>. When \<^verbatim>\<open>res.data.logs[i]\<close> is
  \<^verbatim>\<open>undefined\<close>, reading \<^verbatim>\<open>originalLog.address\<close> throws before anything is changed, and
  the \<^verbatim>\<open>catch\<close> prints a line.
\<close>

fun process_log ::
    "nat \<Rightarrow> timestamp_text \<Rightarrow> decoded_event option \<Rightarrow> raw_log option \<Rightarrow>
     bool \<times> state \<Rightarrow> bool \<times> state" where
  "process_log block_no block_ts None originalLog (printed, st) = (printed, st)"
| "process_log block_no block_ts (Some log) None (printed, st) =
     (printed, say ErrorProcessing st)"
| "process_log block_no block_ts (Some log) (Some originalLog) (printed, st) =
     (let r = make_record block_no block_ts log originalLog;
          st1 = st\<lparr>totalTransferValue := totalTransferValue st + transfer_value log,
                    transferBatch := transferBatch st @ [r]\<rparr>
      in if \<not> printed then
           (True, say (SampleEvent block_no block_ts (log_index r)
                         (transaction_hash r) (contract_address r) (from_address r)
                         (to_address r) (value_str r)) st1)
         else (printed, st1))"

text \<open>The \<^verbatim>\<open>for\<close> loop: \<open>i\<close> runs over \<open>decodedLogs\<close>, and \<open>logs\<close> is read at the same index.\<close>

fun process_logs ::
    "nat \<Rightarrow> timestamp_text \<Rightarrow> decoded_event option list \<Rightarrow> raw_log list \<Rightarrow>
     bool \<times> state \<Rightarrow> bool \<times> state" where
  "process_logs block_no block_ts [] ls ps = ps"
| "process_logs block_no block_ts (d # ds) ls ps =
     process_logs block_no block_ts ds (tl ls)
       (process_log block_no block_ts d (case ls of [] \<Rightarrow> None | l # _ \<Rightarrow> Some l) ps)"

text \<open>
  Lines 184--192: the block context of the page is \<^verbatim>\<open>res.data.blocks?.[0] || {}\<close>.
\<close>

definition blockData :: "page_data \<Rightarrow> block" where
  "blockData d =
     (case blocks d of
        None \<Rightarrow> \<lparr>number = None, timestamp = None\<rparr>
      | Some bs \<Rightarrow> (case bs of [] \<Rightarrow> \<lparr>number = None, timestamp = None\<rparr> | b # _ \<Rightarrow> b))"

definition page_blockNumber :: "page_data \<Rightarrow> nat" where
  "page_blockNumber d = or_number (number (blockData d)) 0"

definition page_blockTimestamp :: "page_data \<Rightarrow> timestamp_text" where
  "page_blockTimestamp d =
     (case timestamp (blockData d) of
        None \<Rightarrow> WallClock
      | Some t \<Rightarrow> if t = 0 then WallClock else BlockTime t)"

text \<open>
  Lines 256--267: the flush check after the logs of a page. The batch is cleared inside
  the \<^verbatim>\<open>try\<close>, after the insert has returned; when the insert throws, the \<^verbatim>\<open>catch\<close>
  only prints.
\<close>

definition flush_if_full :: "env \<Rightarrow> string \<Rightarrow> state \<Rightarrow> state" where
  "flush_if_full e tableName st =
     (if length (transferBatch st) \<ge> batch_size e then
        (case insertTransferBatch e (transferBatch st) tableName st of
           (True, st1) \<Rightarrow> (say (Inserted (length (transferBatch st1))) st1)\<lparr>transferBatch := []\<rparr>
         | (False, st1) \<Rightarrow> say ErrorInsertingBatch st1)
      else st)"

text \<open>Lines 177--268: what is done when \<^verbatim>\<open>res.data && res.data.logs\<close> is truthy.\<close>

definition process_data :: "env \<Rightarrow> string \<Rightarrow> page_data \<Rightarrow> raw_log list \<Rightarrow> state \<Rightarrow> state" where
  "process_data e tableName d ls st =
     (let st1 = st\<lparr>totalEvents := totalEvents st + length ls\<rparr>;
          decodedLogs = map (decodeLog e) ls;
          st2 = snd (process_logs (page_blockNumber d) (page_blockTimestamp d)
                       decodedLogs ls (False, st1))
      in flush_if_full e tableName st2)"

text \<open>
  The body of the \<^verbatim>\<open>while\<close> loop for a page that is not \<^verbatim>\<open>null\<close> (lines 177--284):
  the logs, then the cursor (\<^verbatim>\<open>if (res.nextBlock)\<close>: 0 is falsy), then the progress line.
\<close>

definition consume_page :: "env \<Rightarrow> string \<Rightarrow> page \<Rightarrow> state \<Rightarrow> state" where
  "consume_page e tableName res st =
     (let st1 = (case data_of res of
                   None \<Rightarrow> st
                 | Some d \<Rightarrow> (case logs d of
                                None \<Rightarrow> st
                              | Some ls \<Rightarrow> process_data e tableName d ls st));
          st2 = (if nextBlock res \<noteq> 0 then st1\<lparr>fromBlock := nextBlock res\<rparr> else st1)
      in say (Progress (nextBlock res) (totalEvents st2) (length (transferBatch st2))) st2)"

text \<open>
  The \<^verbatim>\<open>while (true)\<close> loop over what \<^verbatim>\<open>stream.recv()\<close> yields. The list holds the
  results before the \<^verbatim>\<open>null\<close> that ends the stream; a rejection leaves \<^verbatim>\<open>main\<close> as an
  exception (\<open>Inl\<close>, with the state reached).
\<close>

fun loop :: "env \<Rightarrow> string \<Rightarrow> recv list \<Rightarrow> state \<Rightarrow> state + state" where
  "loop e tableName [] st = Inr (say ReachedTip st)"
| "loop e tableName (Rejects # rest) st = Inl st"
| "loop e tableName (Res res # rest) st = loop e tableName rest (consume_page e tableName res st)"

text \<open>Lines 287--297: the final batch.\<close>

definition final_flush :: "env \<Rightarrow> string \<Rightarrow> state \<Rightarrow> state" where
  "final_flush e tableName st =
     (if length (transferBatch st) > 0 then
        (case insertTransferBatch e (transferBatch st) tableName st of
           (True, st1) \<Rightarrow> say (InsertedFinal (length (transferBatch st1))) st1
         | (False, st1) \<Rightarrow> say ErrorInsertingFinal st1)
      else st)"

text \<open>Lines 287--312: what \<^verbatim>\<open>main\<close> does once the loop has ended.\<close>

definition finish :: "env \<Rightarrow> string \<Rightarrow> state \<Rightarrow> state" where
  "finish e tableName st =
     (let st1 = final_flush e tableName st;
          st2 = say (ScanComplete (totalEvents st1)) st1;
          st3 = say (TotalValue (int_toString (totalTransferValue st2))) st2;
          st4 = say (AllSaved (''token_intelligence.'' @ tableName)) st3
      in say ConnectionClosed st4)"

text \<open>Lines 148--166: what \<^verbatim>\<open>main\<close> does before the loop; the state the loop starts in.\<close>

definition start :: "int \<Rightarrow> state \<Rightarrow> string \<times> state" where
  "start cid st =
     (let (tableName, st1) = initializeDatabase cid (say Starting st)
      in (tableName, st1\<lparr>streaming := True\<rparr>))"

definition main :: "env \<Rightarrow> int \<Rightarrow> recv list \<Rightarrow> state \<Rightarrow> state + state" where
  "main e cid src st =
     (let (tableName, st1) = start cid st
      in case loop e tableName src st1 of
           Inl st2 \<Rightarrow> Inl st2
         | Inr st2 \<Rightarrow> Inr (finish e tableName st2))"

text \<open>
  The whole script: the chain is validated before anything else runs; \<^verbatim>\<open>process.exit(1)\<close>
  ends an unsupported chain and a rejected \<^verbatim>\<open>main\<close>.
\<close>

record run =
  exit_code :: nat
  final :: state

definition program :: "env \<Rightarrow> string option \<Rightarrow> recv list \<Rightarrow> run" where
  "program e argv2 src =
     (let cid = CHAIN_ID argv2 in
      case map_of CHAIN_CONFIG cid of
        None \<Rightarrow>
          \<lparr>exit_code = 1,
           final = say (AvailableChains available_chains) (say (UnsupportedChain cid) initial_state)\<rparr>
      | Some chainInfo \<Rightarrow>
          (case main e cid src (say (Collecting (name chainInfo) cid) initial_state) of
             Inl st \<Rightarrow> \<lparr>exit_code = 1, final = say FatalError st\<rparr>
           | Inr st \<Rightarrow> \<lparr>exit_code = 0, final = st\<rparr>))"

section \<open>What a stream holds\<close>

text \<open>
  A log is well formed when the decoder returns an event for it. \<open>rows_of_logs\<close> lists,
  in order, the rows of the well-formed logs among \<open>ls\<close>; \<open>page_rows\<close> does so for the
  logs of a page (none when \<^verbatim>\<open>res.data\<close> or \<^verbatim>\<open>res.data.logs\<close> is missing).
\<close>

definition well_formed :: "env \<Rightarrow> raw_log \<Rightarrow> bool" where
  "well_formed e l = (decodeLog e l \<noteq> None)"

definition row_of_log :: "env \<Rightarrow> nat \<Rightarrow> timestamp_text \<Rightarrow> raw_log \<Rightarrow> transfer_record list" where
  "row_of_log e block_no block_ts l =
     (case decodeLog e l of None \<Rightarrow> [] | Some ev \<Rightarrow> [make_record block_no block_ts ev l])"

definition rows_of_logs ::
    "env \<Rightarrow> nat \<Rightarrow> timestamp_text \<Rightarrow> raw_log list \<Rightarrow> transfer_record list" where
  "rows_of_logs e block_no block_ts ls = concat (map (row_of_log e block_no block_ts) ls)"

definition page_logs :: "page \<Rightarrow> raw_log list option" where
  "page_logs res = (case data_of res of None \<Rightarrow> None | Some d \<Rightarrow> logs d)"

definition page_rows :: "env \<Rightarrow> page \<Rightarrow> transfer_record list" where
  "page_rows e res =
     (case data_of res of
        None \<Rightarrow> []
      | Some d \<Rightarrow>
          (case logs d of
             None \<Rightarrow> []
           | Some ls \<Rightarrow> rows_of_logs e (page_blockNumber d) (page_blockTimestamp d) ls))"




definition delivered :: "state \<Rightarrow> transfer_record list" where
  "delivered st = concat (map rows (filter succeeded (inserts st)))"

text \<open>The call \<^verbatim>\<open>insertTransferBatch\<close> makes for a non-empty batch \<open>b\<close> in state \<open>st\<close>.\<close>

definition call_for :: "env \<Rightarrow> string \<Rightarrow> transfer_record list \<Rightarrow> state \<Rightarrow> insert_call" where
  "call_for e tableName b st =
     \<lparr>table = ''token_intelligence.'' @ tableName, rows = b,
      succeeded = insert_ok e (length (inserts st))\<rparr>"

text \<open>The cursor after a list of pages: the last non-zero \<^verbatim>\<open>nextBlock\<close>, if any.\<close>

definition cursor_after :: "nat \<Rightarrow> page list \<Rightarrow> nat" where
  "cursor_after c pages = foldl (\<lambda>c res. if nextBlock res \<noteq> 0 then nextBlock res else c) c pages"

text \<open>The loop body run over a list of pages, none of which is a rejection.\<close>

definition consume_pages :: "env \<Rightarrow> string \<Rightarrow> page list \<Rightarrow> state \<Rightarrow> state" where
  "consume_pages e tableName pages st = foldl (\<lambda>s res. consume_page e tableName res s) st pages"

text \<open>The state a run of \<^verbatim>\<open>main\<close> has reached, whether it returned or threw.\<close>

definition reached :: "state + state \<Rightarrow> state" where
  "reached r = (case r of Inl st \<Rightarrow> st | Inr st \<Rightarrow> st)"

section \<open>Sample collaborators and inputs\<close>

text \<open>
  A decoder that accepts a log with exactly three topics and reads the value from the
  decimal digits of the data; a well-formed and a malformed log; a sink that accepts every
  call and one whose first call fails; pages with one block entry per listed block.
\<close>

definition sample_decoder :: "raw_log \<Rightarrow> decoded_event option" where
  "sample_decoder l =
     (if length (topics l) = 3
      then Some \<lparr>indexed = [topics l ! 1, topics l ! 2], body = [int (dec_digits_value (data l))]\<rparr>
      else None)"

definition transfer_log :: "nat \<Rightarrow> nat \<Rightarrow> raw_log" where
  "transfer_log b i =
     \<lparr>address = Some ''0xc0'', logIndex = Some i, transactionHash = Some ''0x7a'',
      blockNumber = Some b, topics = [''0xddf2'', ''0xa1'', ''0xb2''], data = ''5''\<rparr>"

definition transfer_logs :: "nat \<Rightarrow> nat \<Rightarrow> raw_log list" where
  "transfer_logs b n = map (transfer_log b) [0..<n]"

definition malformed_log :: "nat \<Rightarrow> nat \<Rightarrow> raw_log" where
  "malformed_log b i =
     \<lparr>address = Some ''0xc0'', logIndex = Some i, transactionHash = Some ''0x7a'',
      blockNumber = Some b, topics = [''0xddf2''], data = []\<rparr>"

definition block_at :: "nat \<Rightarrow> block" where
  "block_at b = \<lparr>number = Some b, timestamp = Some (1700000000 + 12 * b)\<rparr>"

definition page_of :: "raw_log list \<Rightarrow> nat list \<Rightarrow> nat \<Rightarrow> page" where
  "page_of ls bs nb =
     \<lparr>data_of = Some \<lparr>logs = Some ls, blocks = Some (map block_at bs)\<rparr>, nextBlock = nb\<rparr>"

definition accepting :: "nat \<Rightarrow> bool" where
  "accepting n = True"


definition sample_env :: env where
  "sample_env = \<lparr>decodeLog = sample_decoder, insert_ok = accepting, batch_size = BATCH_SIZE\<rparr>"


text \<open>An event and a log with every optional part missing.\<close>

definition bare_event :: decoded_event where
  "bare_event = \<lparr>indexed = [], body = []\<rparr>"

definition bare_log :: raw_log where
  "bare_log =
     \<lparr>address = None, logIndex = None, transactionHash = None, blockNumber = None,
      topics = [], data = []\<rparr>"




section \<open>Auxiliary facts\<close>

subsection \<open>Decimal text\<close>

declare nat_toString.simps [simp del]

lemma say_fields [simp]:
  "totalEvents (say l st) = totalEvents st"
  "totalTransferValue (say l st) = totalTransferValue st"
  "transferBatch (say l st) = transferBatch st"
  "fromBlock (say l st) = fromBlock st"
  "inserts (say l st) = inserts st"
  "commands (say l st) = commands st"
  "streaming (say l st) = streaming st"
  "console (say l st) = console st @ [l]"
  by (simp_all add: say_def)











subsection \<open>The loop over the logs of a page\<close>

lemma process_log_batch:
  "transferBatch (snd (process_log bn bt (decodeLog e l) (Some l) ps)) =
     transferBatch (snd ps) @ row_of_log e bn bt l"
  by (cases ps; cases "decodeLog e l") (simp_all add: row_of_log_def Let_def)

lemma process_log_kept:
  "totalEvents (snd (process_log bn bt d ol ps)) = totalEvents (snd ps)"
  "fromBlock (snd (process_log bn bt d ol ps)) = fromBlock (snd ps)"
  "inserts (snd (process_log bn bt d ol ps)) = inserts (snd ps)"
  "commands (snd (process_log bn bt d ol ps)) = commands (snd ps)"
  "streaming (snd (process_log bn bt d ol ps)) = streaming (snd ps)"
  by (cases ps; cases d; cases ol; simp add: Let_def)+

lemma process_logs_batch:
  "transferBatch (snd (process_logs bn bt (map (decodeLog e) ls) ls ps)) =
     transferBatch (snd ps) @ rows_of_logs e bn bt ls"
  by (induction ls arbitrary: ps) (simp_all add: rows_of_logs_def process_log_batch)

lemma process_logs_kept:
  "totalEvents (snd (process_logs bn bt ds ls ps)) = totalEvents (snd ps)"
  "fromBlock (snd (process_logs bn bt ds ls ps)) = fromBlock (snd ps)"
  "inserts (snd (process_logs bn bt ds ls ps)) = inserts (snd ps)"
  "commands (snd (process_logs bn bt ds ls ps)) = commands (snd ps)"
  "streaming (snd (process_logs bn bt ds ls ps)) = streaming (snd ps)"
  by (induction ds arbitrary: ls ps; simp add: process_log_kept)+

lemma length_row_of_log: "length (row_of_log e bn bt l) = (if well_formed e l then 1 else 0)"
  by (simp add: row_of_log_def well_formed_def split: option.splits)

lemma length_rows_of_logs:
  "length (rows_of_logs e bn bt ls) = length (filter (well_formed e) ls)"
  by (induction ls) (simp_all add: rows_of_logs_def length_row_of_log)

subsection \<open>The flush check and the page\<close>

lemma insertTransferBatch_nonempty:
  "b \<noteq> [] \<Longrightarrow> insertTransferBatch e b t st =
     (insert_ok e (length (inserts st)), st\<lparr>inserts := inserts st @ [call_for e t b st]\<rparr>)"
  by (simp add: insertTransferBatch_def call_for_def Let_def)

lemma insertTransferBatch_empty: "insertTransferBatch e [] t st = (True, st)"
  by (simp add: insertTransferBatch_def)

lemma flush_if_full_batch:
  "transferBatch (flush_if_full e t st) =
     (if batch_size e \<le> length (transferBatch st) \<and>
         (transferBatch st = [] \<or> insert_ok e (length (inserts st)))
      then [] else transferBatch st)"
  by (cases "transferBatch st = []"; cases "insert_ok e (length (inserts st))")
     (simp_all add: flush_if_full_def insertTransferBatch_nonempty insertTransferBatch_empty)

lemma flush_if_full_inserts:
  "inserts (flush_if_full e t st) =
     (if batch_size e \<le> length (transferBatch st) \<and> transferBatch st \<noteq> []
      then inserts st @ [call_for e t (transferBatch st) st] else inserts st)"
  by (cases "transferBatch st = []"; cases "insert_ok e (length (inserts st))")
     (simp_all add: flush_if_full_def insertTransferBatch_nonempty insertTransferBatch_empty)

lemma flush_if_full_kept:
  "totalEvents (flush_if_full e t st) = totalEvents st"
  "totalTransferValue (flush_if_full e t st) = totalTransferValue st"
  "fromBlock (flush_if_full e t st) = fromBlock st"
  "commands (flush_if_full e t st) = commands st"
  "streaming (flush_if_full e t st) = streaming st"
  by (cases "transferBatch st = []"; cases "insert_ok e (length (inserts st))";
      simp add: flush_if_full_def insertTransferBatch_nonempty insertTransferBatch_empty)+

text \<open>The buffer as it stands when the flush check of a page runs.\<close>

lemma consume_page_batch:
  "transferBatch (consume_page e t res st) =
     (let b = transferBatch st @ page_rows e res in
      if page_logs res \<noteq> None \<and> batch_size e \<le> length b \<and>
         (b = [] \<or> insert_ok e (length (inserts st)))
      then [] else b)"
  by (auto simp add: consume_page_def process_data_def page_rows_def page_logs_def Let_def
      flush_if_full_batch process_logs_batch process_logs_kept
      split: option.splits)

lemma consume_page_inserts:
  "inserts (consume_page e t res st) =
     (let b = transferBatch st @ page_rows e res in
      if page_logs res \<noteq> None \<and> batch_size e \<le> length b \<and> b \<noteq> []
      then inserts st @ [call_for e t b st] else inserts st)"
  by (simp add: consume_page_def process_data_def page_rows_def page_logs_def Let_def
      flush_if_full_inserts process_logs_batch process_logs_kept call_for_def
      split: option.splits)

lemma consume_page_totalEvents:
  "totalEvents (consume_page e t res st) =
     totalEvents st + (case page_logs res of None \<Rightarrow> 0 | Some ls \<Rightarrow> length ls)"
  by (simp add: consume_page_def process_data_def page_logs_def Let_def
      flush_if_full_kept process_logs_kept split: option.splits)

lemma consume_page_fromBlock:
  "fromBlock (consume_page e t res st) =
     (if nextBlock res \<noteq> 0 then nextBlock res else fromBlock st)"
  by (simp add: consume_page_def process_data_def Let_def
      flush_if_full_kept process_logs_kept split: option.splits)

lemma consume_page_kept:
  "commands (consume_page e t res st) = commands st"
  "streaming (consume_page e t res st) = streaming st"
  by (simp_all add: consume_page_def process_data_def Let_def
      flush_if_full_kept process_logs_kept split: option.splits)

subsection \<open>The loop over the pages\<close>

lemma consume_pages_Nil [simp]: "consume_pages e t [] st = st"
  by (simp add: consume_pages_def)

lemma consume_pages_Cons [simp]:
  "consume_pages e t (res # pages) st = consume_pages e t pages (consume_page e t res st)"
  by (simp add: consume_pages_def)

lemma consume_pages_snoc:
  "consume_pages e t (pages @ [res]) st = consume_page e t res (consume_pages e t pages st)"
  by (simp add: consume_pages_def)

lemma loop_pages: "loop e t (map Res pages) st = Inr (say ReachedTip (consume_pages e t pages st))"
  by (induction pages arbitrary: st) simp_all

lemma delivered_snoc:
  "delivered (st\<lparr>inserts := cs @ [c]\<rparr>) =
     concat (map rows (filter succeeded cs)) @ (if succeeded c then rows c else [])"
  by (simp add: delivered_def)

text \<open>Rows are neither lost nor doubled by a page, whatever the sink does.\<close>

lemma consume_page_conserves:
  "delivered (consume_page e t res st) @ transferBatch (consume_page e t res st) =
     delivered st @ transferBatch st @ page_rows e res"
  by (auto simp add: delivered_def consume_page_batch consume_page_inserts Let_def call_for_def)



lemma consume_pages_fromBlock:
  "fromBlock (consume_pages e t pages st) = cursor_after (fromBlock st) pages"
  by (induction pages arbitrary: st) (simp_all add: cursor_after_def consume_page_fromBlock)

lemma consume_pages_kept:
  "commands (consume_pages e t pages st) = commands st"
  "streaming (consume_pages e t pages st) = streaming st"
  by (induction pages arbitrary: st; simp add: consume_page_kept)+









subsection \<open>Before and after the loop\<close>

lemma start_table: "fst (start cid st) = ''erc20_transfers_'' @ int_toString cid"
  by (simp add: start_def initializeDatabase_def Let_def)

lemma start_fields:
  "totalEvents (snd (start cid st)) = totalEvents st"
  "totalTransferValue (snd (start cid st)) = totalTransferValue st"
  "transferBatch (snd (start cid st)) = transferBatch st"
  "fromBlock (snd (start cid st)) = fromBlock st"
  "inserts (snd (start cid st)) = inserts st"
  "streaming (snd (start cid st)) = True"
  "commands (snd (start cid st)) =
     commands st @ [CreateDatabase, DropTable (fst (start cid st)), CreateTable (fst (start cid st))]"
  by (simp_all add: start_def initializeDatabase_def Let_def)

lemma final_flush_inserts:
  "inserts (final_flush e t st) =
     (if transferBatch st = [] then inserts st
      else inserts st @ [call_for e t (transferBatch st) st])"
  by (cases "transferBatch st = []"; cases "insert_ok e (length (inserts st))")
     (simp_all add: final_flush_def insertTransferBatch_nonempty)

lemma final_flush_kept:
  "totalEvents (final_flush e t st) = totalEvents st"
  "totalTransferValue (final_flush e t st) = totalTransferValue st"
  "transferBatch (final_flush e t st) = transferBatch st"
  "fromBlock (final_flush e t st) = fromBlock st"
  "commands (final_flush e t st) = commands st"
  "streaming (final_flush e t st) = streaming st"
  by (cases "transferBatch st = []"; cases "insert_ok e (length (inserts st))";
      simp add: final_flush_def insertTransferBatch_nonempty)+

lemma finish_inserts:
  "inserts (finish e t st) =
     (if transferBatch st = [] then inserts st
      else inserts st @ [call_for e t (transferBatch st) st])"
  by (simp add: finish_def Let_def final_flush_inserts)

lemma finish_kept:
  "totalEvents (finish e t st) = totalEvents st"
  "totalTransferValue (finish e t st) = totalTransferValue st"
  "transferBatch (finish e t st) = transferBatch st"
  "fromBlock (finish e t st) = fromBlock st"
  "commands (finish e t st) = commands st"
  "streaming (finish e t st) = streaming st"
  by (simp_all add: finish_def Let_def final_flush_kept)

lemma main_split:
  "main e cid src st =
     (case loop e (fst (start cid st)) src (snd (start cid st)) of
        Inl st2 \<Rightarrow> Inl st2
      | Inr st2 \<Rightarrow> Inr (finish e (fst (start cid st)) st2))"
  by (cases "start cid st") (simp add: main_def split: sum.splits)

lemma main_pages:
  "main e cid (map Res pages) st =
     Inr (finish e (fst (start cid st))
            (say ReachedTip (consume_pages e (fst (start cid st)) pages (snd (start cid st)))))"
  by (simp add: main_split loop_pages)

lemma loop_kept:
  "commands (reached (loop e t src st)) = commands st"
  "streaming (reached (loop e t src st)) = streaming st"
  by (induction e t src st rule: loop.induct; simp add: reached_def consume_page_kept)+


lemma length_page_rows:
  "length (page_rows e res) =
     length (filter (well_formed e) (case page_logs res of None \<Rightarrow> [] | Some ls \<Rightarrow> ls))"
  by (simp add: page_rows_def page_logs_def length_rows_of_logs split: option.splits)



subsection \<open>Values and rows\<close>


lemma int_toString_0: "int_toString 0 = ''0''"
  by (simp add: int_toString_def nat_toString.simps digit_char_def char_of_def bit_Suc_0_iff)





subsection \<open>The sample inputs\<close>

lemma page_logs_page_of: "page_logs (page_of ls bs nb) = Some ls"
  by (simp add: page_logs_def page_of_def)

lemma well_formed_transfer_log:
  "decodeLog e = sample_decoder \<Longrightarrow> well_formed e (transfer_log b i)"
  by (simp add: well_formed_def sample_decoder_def transfer_log_def)

lemma malformed_log_rejected:
  "decodeLog e = sample_decoder \<Longrightarrow> \<not> well_formed e (malformed_log b i)"
  by (simp add: well_formed_def sample_decoder_def malformed_log_def)

lemma filter_transfer_logs:
  "decodeLog e = sample_decoder \<Longrightarrow>
   filter (well_formed e) (transfer_logs b n) = transfer_logs b n"
  by (simp add: transfer_logs_def well_formed_transfer_log)

lemma length_transfer_logs: "length (transfer_logs b n) = n"
  by (simp add: transfer_logs_def)

lemma length_page_rows_transfer_logs:
  "decodeLog e = sample_decoder \<Longrightarrow>
   length (page_rows e (page_of (transfer_logs b n) bs nb)) = n"
  by (simp add: length_page_rows page_logs_page_of filter_transfer_logs length_transfer_logs)

lemma sample_env_fields:
  "decodeLog sample_env = sample_decoder" "insert_ok sample_env n = True"
  "batch_size sample_env = 1000"
  by (simp_all add: sample_env_def accepting_def BATCH_SIZE_def)


lemma initial_state_fields:
  "totalEvents initial_state = 0" "totalTransferValue initial_state = 0"
  "transferBatch initial_state = []" "fromBlock initial_state = 0"
  "inserts initial_state = []" "commands initial_state = []"
  "streaming initial_state = False" "console initial_state = []"
  by (simp_all add: initial_state_def)

subsection \<open>The console only grows\<close>

lemma process_log_console:
  "\<exists>ls. console (snd (process_log bn bt d ol ps)) = console (snd ps) @ ls"
  by (cases ps; cases d; cases ol) (simp_all add: Let_def)

lemma process_logs_console:
  "\<exists>ls. console (snd (process_logs bn bt ds xs ps)) = console (snd ps) @ ls"
proof (induction ds arbitrary: xs ps)
  case Nil
  show ?case by simp
next
  case (Cons d ds)
  let ?ps = "process_log bn bt d (case xs of [] \<Rightarrow> None | l # _ \<Rightarrow> Some l) ps"
  obtain l1 where "console (snd ?ps) = console (snd ps) @ l1"
    using process_log_console by blast
  moreover obtain l2 where
    "console (snd (process_logs bn bt ds (tl xs) ?ps)) = console (snd ?ps) @ l2"
    using Cons.IH by blast
  ultimately show ?case by simp
qed

lemma flush_if_full_console:
  "\<exists>ls. console (flush_if_full e t st) = console st @ ls"
  by (cases "transferBatch st = []"; cases "insert_ok e (length (inserts st))")
     (simp_all add: flush_if_full_def insertTransferBatch_nonempty insertTransferBatch_empty)

lemma process_data_console:
  "\<exists>ls. console (process_data e t d xs st) = console st @ ls"
proof -
  let ?st1 = "st\<lparr>totalEvents := totalEvents st + length xs\<rparr>"
  let ?st2 = "snd (process_logs (page_blockNumber d) (page_blockTimestamp d)
                     (map (decodeLog e) xs) xs (False, ?st1))"
  have "\<exists>ls. console ?st2 = console (snd (False, ?st1)) @ ls"
    by (rule process_logs_console)
  then obtain l1 where "console ?st2 = console st @ l1"
    by auto
  moreover obtain l2 where "console (flush_if_full e t ?st2) = console ?st2 @ l2"
    using flush_if_full_console by blast
  ultimately show ?thesis by (simp add: process_data_def Let_def)
qed

lemma consume_page_console:
  "\<exists>ls. console (consume_page e t res st) = console st @ ls"
proof (cases "page_logs res")
  case None
  then show ?thesis
    by (simp add: consume_page_def page_logs_def Let_def split: option.splits)
next
  case (Some xs)
  then obtain d where d: "data_of res = Some d" "logs d = Some xs"
    by (auto simp add: page_logs_def split: option.splits)
  obtain l1 where "console (process_data e t d xs st) = console st @ l1"
    using process_data_console by blast
  with d show ?thesis by (simp add: consume_page_def Let_def)
qed

lemma loop_console:
  "\<exists>ls. console (reached (loop e t src st)) = console st @ ls"
proof (induction e t src st rule: loop.induct)
  case (1 e t st)
  show ?case by (simp add: reached_def)
next
  case (2 e t rest st)
  show ?case by (simp add: reached_def)
next
  case (3 e t res rest st)
  obtain l1 where "console (consume_page e t res st) = console st @ l1"
    using consume_page_console by blast
  with 3 show ?case by auto
qed

lemma final_flush_console: "\<exists>ls. console (final_flush e t st) = console st @ ls"
  by (cases "transferBatch st = []"; cases "insert_ok e (length (inserts st))")
     (simp_all add: final_flush_def insertTransferBatch_nonempty)

lemma finish_console: "\<exists>ls. console (finish e t st) = console st @ ls"
proof -
  obtain l1 where "console (final_flush e t st) = console st @ l1"
    using final_flush_console by blast
  then show ?thesis by (simp add: finish_def Let_def)
qed

lemma start_console: "\<exists>ls. console (snd (start cid st)) = console st @ ls"
  by (simp add: start_def initializeDatabase_def Let_def)

lemma reached_main:
  "reached (main e cid src st) =
     (case loop e (fst (start cid st)) src (snd (start cid st)) of
        Inl st2 \<Rightarrow> st2
      | Inr st2 \<Rightarrow> finish e (fst (start cid st)) st2)"
  by (simp add: main_split reached_def split: sum.splits)

lemma main_console: "\<exists>ls. console (reached (main e cid src st)) = console st @ ls"
proof -
  let ?t = "fst (start cid st)" and ?s = "snd (start cid st)"
  obtain l1 where l1: "console ?s = console st @ l1"
    using start_console by blast
  obtain l2 where l2: "console (reached (loop e ?t src ?s)) = console ?s @ l2"
    using loop_console by blast
  show ?thesis
  proof (cases "loop e ?t src ?s")
    case (Inl st2)
    with l1 l2 show ?thesis unfolding reached_main by (simp add: reached_def)
  next
    case (Inr st2)
    obtain l3 where "console (finish e ?t st2) = console st2 @ l3"
      using finish_console by blast
    with Inr l1 l2 show ?thesis unfolding reached_main by (simp add: reached_def)
  qed
qed

lemma main_commands:
  "commands (reached (main e cid src st)) =
     commands st @ [CreateDatabase, DropTable (''erc20_transfers_'' @ int_toString cid),
                    CreateTable (''erc20_transfers_'' @ int_toString cid)]"
proof -
  let ?t = "fst (start cid st)" and ?s = "snd (start cid st)"
  have "commands (reached (main e cid src st)) = commands (reached (loop e ?t src ?s))"
    unfolding reached_main by (simp add: reached_def finish_kept split: sum.splits)
  then show ?thesis by (simp add: loop_kept start_fields start_table)
qed

lemma main_streaming: "streaming (reached (main e cid src st))"
proof -
  let ?t = "fst (start cid st)" and ?s = "snd (start cid st)"
  have "streaming (reached (main e cid src st)) = streaming (reached (loop e ?t src ?s))"
    unfolding reached_main by (simp add: reached_def finish_kept split: sum.splits)
  then show ?thesis by (simp add: loop_kept start_fields)
qed

lemma final_program:
  "map_of CHAIN_CONFIG (CHAIN_ID argv2) = Some c \<Longrightarrow>
   final (program e argv2 src) =
     (case main e (CHAIN_ID argv2) src (say (Collecting (name c) (CHAIN_ID argv2)) initial_state) of
        Inl st \<Rightarrow> say FatalError st | Inr st \<Rightarrow> st)"
  by (simp add: program_def Let_def split: sum.splits)

lemma program_proceeds:
  assumes "map_of CHAIN_CONFIG (CHAIN_ID argv2) = Some c"
  shows "(\<exists>rest. console (final (program e argv2 src)) =
                  Collecting (name c) (CHAIN_ID argv2) # rest) \<and>
         commands (final (program e argv2 src)) =
           [CreateDatabase, DropTable (''erc20_transfers_'' @ int_toString (CHAIN_ID argv2)),
            CreateTable (''erc20_transfers_'' @ int_toString (CHAIN_ID argv2))] \<and>
         streaming (final (program e argv2 src))"
proof -
  let ?cid = "CHAIN_ID argv2"
  let ?s0 = "say (Collecting (name c) ?cid) initial_state"
  let ?m = "main e ?cid src ?s0"
  obtain ls where ls: "console (reached ?m) = console ?s0 @ ls"
    using main_console by blast
  have fin: "final (program e argv2 src) = (case ?m of Inl st \<Rightarrow> say FatalError st | Inr st \<Rightarrow> st)"
    using assms by (rule final_program)
  have c: "\<exists>rest. console (final (program e argv2 src)) = Collecting (name c) ?cid # rest"
    using ls by (cases ?m) (simp_all add: fin reached_def initial_state_fields)
  have k: "commands (final (program e argv2 src)) = commands (reached ?m)"
    by (cases ?m) (simp_all add: fin reached_def)
  have s: "streaming (final (program e argv2 src)) = streaming (reached ?m)"
    by (cases ?m) (simp_all add: fin reached_def)
  show ?thesis
    using c by (simp add: k s main_commands main_streaming initial_state_fields)
qed

lemma program_rejected:
  assumes "map_of CHAIN_CONFIG (CHAIN_ID argv2) = None"
  shows "program e argv2 src =
           \<lparr>exit_code = 1,
            final = initial_state\<lparr>console := [UnsupportedChain (CHAIN_ID argv2),
                                               AvailableChains available_chains]\<rparr>\<rparr>"
  using assms by (simp add: program_def Let_def say_def initial_state_def)

lemma exit_code_pages:
  "map_of CHAIN_CONFIG (CHAIN_ID argv2) = Some c \<Longrightarrow>
   exit_code (program e argv2 (map Res pages)) = 0"
  by (simp add: program_def Let_def main_pages)

lemma available_chains_text:
  "available_chains =
     ''1 (Ethereum), 10 (Optimism), 56 (BSC), 130 (Unichain), 137 (Polygon), 480 (World Chain), 1868 (Lightlink), 8453 (Base), 42161 (Arbitrum), 43114 (Avalanche), 81457 (Blast), 7777777 (Zora)''"
  by code_simp

lemma Unichain_listed:
  "map_of CHAIN_CONFIG 130 = Some \<lparr>name = ''Unichain'', hypersyncUrl = ''http://130.hypersync.xyz''\<rparr>"
  by (simp add: CHAIN_CONFIG_def)

lemma int_toString_130: "int_toString 130 = ''130''"
  by (simp add: int_toString_def nat_toString.simps digit_char_def char_of_def bit_Suc_0_iff)

subsection \<open>The chain identifier\<close>

lemma CHAIN_ID_default:
  "parseInt argv2 = NaN \<or> parseInt argv2 = Num 0 \<Longrightarrow> CHAIN_ID argv2 = 130"
  by (auto simp add: CHAIN_ID_def)

lemma CHAIN_ID_given: "parseInt argv2 = Num n \<Longrightarrow> n \<noteq> 0 \<Longrightarrow> CHAIN_ID argv2 = n"
  by (simp add: CHAIN_ID_def)

lemma program_by_CHAIN_ID:
  "CHAIN_ID a = CHAIN_ID b \<Longrightarrow> program e a src = program e b src"
  by (simp add: program_def)

lemmas parseInt_eval =
  parseInt_def is_white_space_def is_radix_digit_def digit_of_def Let_def

lemma parseInt_samples:
  "parseInt None = NaN" "parseInt (Some ''abc'') = NaN" "parseInt (Some ''0'') = Num 0"
  "parseInt (Some ''130'') = Num 130" "parseInt (Some ''5'') = Num 5"
  "parseInt (Some ''8453'') = Num 8453"
  by (simp_all add: parseInt_eval)

subsection \<open>Runs over sample streams\<close>

lemma nextBlock_page_of: "nextBlock (page_of ls bs nb) = nb"
  by (simp add: page_of_def)

lemma CHAIN_ID_130: "CHAIN_ID (Some ''130'') = 130"
  by (simp add: CHAIN_ID_def parseInt_samples)

lemma program_130_pages:
  "program e (Some ''130'') (map Res pages) =
     \<lparr>exit_code = 0,
      final = finish e ''erc20_transfers_130''
                (say ReachedTip
                   (consume_pages e ''erc20_transfers_130'' pages
                      (snd (start 130 (say (Collecting ''Unichain'' 130) initial_state)))))\<rparr>"
  by (simp add: program_def CHAIN_ID_130 Unichain_listed main_pages start_table int_toString_130)

lemma rows_of_logs_context:
  "r \<in> set (rows_of_logs e bn bt ls) \<Longrightarrow> block_number r = bn \<and> block_timestamp r = bt"
  by (auto simp add: rows_of_logs_def row_of_log_def make_record_def split: option.splits)

lemma page_rows_context:
  "data_of res = Some d \<Longrightarrow> r \<in> set (page_rows e res) \<Longrightarrow>
   block_number r = page_blockNumber d \<and> block_timestamp r = page_blockTimestamp d"
  by (auto simp add: page_rows_def dest: rows_of_logs_context split: option.splits)

lemma first_block_context:
  "blocks d = Some (b # bs) \<Longrightarrow>
   page_blockNumber d = or_number (number b) 0 \<and>
   page_blockTimestamp d =
     (case timestamp b of None \<Rightarrow> WallClock | Some t \<Rightarrow> if t = 0 then WallClock else BlockTime t)"
  by (simp add: page_blockNumber_def page_blockTimestamp_def blockData_def)

lemma sample_rows_two:
  "decodeLog e = sample_decoder \<Longrightarrow>
   page_rows e (page_of [transfer_log b1 i1, transfer_log b2 i2] (b # bs) nb) =
     [\<lparr>block_number = or_number (Some b) 0, block_timestamp = BlockTime (1700000000 + 12 * b),
       log_index = or_number (Some i1) 0, transaction_hash = ''0x7a'', contract_address = ''0xc0'',
       from_address = ''0xa1'', to_address = ''0xb2'', value_str = ''5''\<rparr>,
      \<lparr>block_number = or_number (Some b) 0, block_timestamp = BlockTime (1700000000 + 12 * b),
       log_index = or_number (Some i2) 0, transaction_hash = ''0x7a'', contract_address = ''0xc0'',
       from_address = ''0xa1'', to_address = ''0xb2'', value_str = ''5''\<rparr>]"
  by (simp add: page_rows_def page_of_def rows_of_logs_def row_of_log_def sample_decoder_def
      transfer_log_def make_record_def page_blockNumber_def page_blockTimestamp_def
      blockData_def block_at_def or_text_def slot_def transfer_value_def dec_digits_value_def
      int_toString_def nat_toString.simps digit_char_def char_of_def bit_Suc_0_iff)











section \<open>The claims\<close>




text \<open>
  Claim C2, as amended. The loop makes no comparison of positions: after a page the cursor
  \<^verbatim>\<open>query.fromBlock\<close> is the page's \<^verbatim>\<open>nextBlock\<close> when that is not 0 and is unchanged
  otherwise. So it is at least its value before the page exactly when \<^verbatim>\<open>nextBlock\<close> is 0
  or not lower than the cursor; a page reporting a lower position is taken like any other,
  the loop goes on with the pages that follow, and a stream without rejection always ends
  normally.
\<close>

theorem cursor_follows_source:
  "fromBlock (consume_page e t res st) =
     (if nextBlock res \<noteq> 0 then nextBlock res else fromBlock st) \<and>
   (fromBlock st \<le> fromBlock (consume_page e t res st)) =
     (nextBlock res = 0 \<or> fromBlock st \<le> nextBlock res) \<and>
   loop e t (Res res # rest) st = loop e t rest (consume_page e t res st) \<and>
   (\<exists>st'. loop e t (map Res pages) st = Inr st' \<and>
          fromBlock st' = cursor_after (fromBlock st) pages)"
  by (simp add: consume_page_fromBlock loop_pages consume_pages_fromBlock)

text \<open>From cursor 100, a page reporting 101 moves the cursor and a page reporting 0 leaves it.\<close>

theorem cursor_follows_source_witness:
  "fromBlock (consume_page sample_env ''erc20_transfers_130'' (page_of [] [100] 101)
               (initial_state\<lparr>fromBlock := 100\<rparr>)) = 101 \<and>
   fromBlock (consume_page sample_env ''erc20_transfers_130'' (page_of [] [] 0)
               (initial_state\<lparr>fromBlock := 100\<rparr>)) = 100"
  using cursor_follows_source [of sample_env "''erc20_transfers_130''" "page_of [] [100] 101"
          "initial_state\<lparr>fromBlock := 100\<rparr>" "[]" "[]"]
    cursor_follows_source [of sample_env "''erc20_transfers_130''" "page_of [] [] 0"
          "initial_state\<lparr>fromBlock := 100\<rparr>" "[]" "[]"]
  by (simp add: nextBlock_page_of)

text \<open>
  The claim as stated fails: after a page reporting 100, a page reporting 50 sets the
  cursor back to 50; no error is raised, the third page is consumed (its log is counted)
  and the run ends with exit code 0.
\<close>

theorem cursor_monotonicity_counterexample:
  "fromBlock (consume_pages sample_env ''erc20_transfers_130''
                [page_of [] [99] 100] initial_state) = 100 \<and>
   fromBlock (consume_pages sample_env ''erc20_transfers_130''
                [page_of [] [99] 100, page_of [] [49] 50] initial_state) = 50 \<and>
   exit_code (program sample_env (Some ''130'')
                [Res (page_of [] [99] 100), Res (page_of [] [49] 50),
                 Res (page_of [transfer_log 50 0] [50] 51)]) = 0 \<and>
   totalEvents (final (program sample_env (Some ''130'')
                [Res (page_of [] [99] 100), Res (page_of [] [49] 50),
                 Res (page_of [transfer_log 50 0] [50] 51)])) = 1 \<and>
   fromBlock (final (program sample_env (Some ''130'')
                [Res (page_of [] [99] 100), Res (page_of [] [49] 50),
                 Res (page_of [transfer_log 50 0] [50] 51)])) = 51"
proof -
  have "[Res (page_of [] [99] 100), Res (page_of [] [49] 50),
         Res (page_of [transfer_log 50 0] [50] 51)] =
        map Res [page_of [] [99] 100, page_of [] [49] 50, page_of [transfer_log 50 0] [50] 51]"
    by simp
  then show ?thesis
    by (simp only: program_130_pages)
       (simp add: consume_page_fromBlock consume_page_totalEvents finish_kept start_fields
          initial_state_fields nextBlock_page_of page_logs_page_of)
qed







text \<open>
  Claim C5, as amended. Every row built from a page carries one block context, that of the
  first entry of \<^verbatim>\<open>res.data.blocks\<close>: its number (0 when missing or 0) and the text of
  its timestamp (the wall clock when missing or 0); without a first entry the number is 0
  and the timestamp the wall clock. The rows a page adds are \<open>page_rows\<close>, and a row does
  not depend on the \<open>blockNumber\<close> of its log.
\<close>

theorem rows_carry_page_block:
  assumes "data_of res = Some d"
  shows "delivered (consume_page e t res st) @ transferBatch (consume_page e t res st) =
           delivered st @ transferBatch st @ page_rows e res \<and>
         (\<forall>r \<in> set (page_rows e res).
            block_number r = page_blockNumber d \<and> block_timestamp r = page_blockTimestamp d) \<and>
         (\<forall>b bs. blocks d = Some (b # bs) \<longrightarrow>
            page_blockNumber d = or_number (number b) 0 \<and>
            page_blockTimestamp d =
              (case timestamp b of None \<Rightarrow> WallClock
               | Some t \<Rightarrow> if t = 0 then WallClock else BlockTime t)) \<and>
         (blocks d = None \<or> blocks d = Some [] \<longrightarrow>
            page_blockNumber d = 0 \<and> page_blockTimestamp d = WallClock) \<and>
         (\<forall>bn bt ev l x. make_record bn bt ev (l\<lparr>blockNumber := x\<rparr>) = make_record bn bt ev l)"
proof -
  have "\<forall>r \<in> set (page_rows e res).
          block_number r = page_blockNumber d \<and> block_timestamp r = page_blockTimestamp d"
    using assms page_rows_context by blast
  moreover have "blocks d = None \<or> blocks d = Some [] \<longrightarrow>
                   page_blockNumber d = 0 \<and> page_blockTimestamp d = WallClock"
    by (auto simp add: page_blockNumber_def page_blockTimestamp_def blockData_def or_number_def)
  moreover have "\<forall>bn bt ev l x. make_record bn bt ev (l\<lparr>blockNumber := x\<rparr>) = make_record bn bt ev l"
    by (simp add: make_record_def)
  ultimately show ?thesis
    using first_block_context [of d] by (simp add: consume_page_conserves)
qed

text \<open>Two logs of block 100 in a page whose only block entry is 100: both rows say 100.\<close>

theorem rows_carry_page_block_witness:
  "set (map block_number
         (page_rows sample_env (page_of [transfer_log 100 0, transfer_log 100 1] [100] 101))) = {100}"
proof -
  have d: "data_of (page_of [transfer_log 100 0, transfer_log 100 1] [100] 101) =
             Some \<lparr>logs = Some [transfer_log 100 0, transfer_log 100 1],
                   blocks = Some (map block_at [100])\<rparr>"
    by (simp add: page_of_def)
  from rows_carry_page_block [OF d, of sample_env "''erc20_transfers_130''" initial_state]
  have "\<forall>r \<in> set (page_rows sample_env (page_of [transfer_log 100 0, transfer_log 100 1] [100] 101)).
          block_number r = 100"
    by (simp add: page_blockNumber_def blockData_def block_at_def or_number_def)
  moreover have "page_rows sample_env (page_of [transfer_log 100 0, transfer_log 100 1] [100] 101) \<noteq> []"
    by (simp add: sample_rows_two sample_env_fields)
  ultimately show ?thesis
    by (cases "page_rows sample_env (page_of [transfer_log 100 0, transfer_log 100 1] [100] 101)")
       auto
qed

text \<open>
  The claim as stated fails: a page with the block entries 100 and 101 and one log of
  each gives two rows that both carry block 100 and its timestamp.
\<close>

theorem per_log_block_counterexample:
  "map blockNumber [transfer_log 100 0, transfer_log 101 0] = [Some 100, Some 101] \<and>
   map block_number
     (transferBatch (consume_page sample_env ''erc20_transfers_130''
        (page_of [transfer_log 100 0, transfer_log 101 0] [100, 101] 102) initial_state)) =
     [100, 100] \<and>
   map block_timestamp
     (transferBatch (consume_page sample_env ''erc20_transfers_130''
        (page_of [transfer_log 100 0, transfer_log 101 0] [100, 101] 102) initial_state)) =
     [BlockTime 1700001200, BlockTime 1700001200]"
  by (simp add: consume_page_batch initial_state_fields sample_rows_two sample_env_fields
      page_logs_page_of or_number_def) (simp add: transfer_log_def)

text \<open>
  Claim C6. When the stream ends (\<^verbatim>\<open>recv\<close> returns \<^verbatim>\<open>null\<close>) with \<open>M\<close> records
  buffered and \<open>0 < M < capacity\<close>, \<^verbatim>\<open>main\<close> makes exactly one more insert call, with
  those \<open>M\<close> records; with an empty buffer it makes none. \<open>st3\<close> is the state in which
  the loop ends.
\<close>

theorem graceful_drain:
  assumes "main e cid src st = Inr st'"
  shows "\<exists>st3. loop e (fst (start cid st)) src (snd (start cid st)) = Inr st3 \<and>
           (0 < length (transferBatch st3) \<and> length (transferBatch st3) < batch_size e \<longrightarrow>
              inserts st' = inserts st3 @ [call_for e (fst (start cid st)) (transferBatch st3) st3] \<and>
              length (rows (last (inserts st'))) = length (transferBatch st3)) \<and>
           (transferBatch st3 = [] \<longrightarrow> inserts st' = inserts st3)"
proof (cases "loop e (fst (start cid st)) src (snd (start cid st))")
  case (Inl st2)
  with assms show ?thesis by (simp add: main_split)
next
  case (Inr st3)
  with assms have "st' = finish e (fst (start cid st)) st3" by (simp add: main_split)
  with Inr show ?thesis by (auto simp add: finish_inserts call_for_def)
qed

text \<open>A page of three logs under capacity 1000: the only insert is the final one, of 3 rows.\<close>

theorem graceful_drain_witness:
  "map (length \<circ> rows) (inserts (reached (main sample_env 130
      [Res (page_of (transfer_logs 100 3) [100] 101)] initial_state))) = [3]"
proof -
  let ?p = "page_of (transfer_logs 100 3) [100] 101"
  let ?t = "fst (start 130 initial_state)"
  let ?s0 = "snd (start 130 initial_state)"
  let ?s1 = "consume_page sample_env ?t ?p ?s0"
  let ?st3 = "say ReachedTip ?s1"
  have len: "length (page_rows sample_env ?p) = 3"
    by (simp add: length_page_rows_transfer_logs sample_env_fields)
  have loop: "loop sample_env ?t [Res ?p] ?s0 = Inr ?st3"
    by simp
  have batch: "transferBatch ?s1 = page_rows sample_env ?p"
    by (simp add: consume_page_batch start_fields initial_state_fields len sample_env_fields)
  have ins: "inserts ?s1 = []"
    by (simp add: consume_page_inserts start_fields initial_state_fields len sample_env_fields)
  have main: "main sample_env 130 [Res ?p] initial_state = Inr (finish sample_env ?t ?st3)"
    using main_pages [of sample_env 130 "[?p]" initial_state] by simp
  from graceful_drain [OF main] loop
  have "0 < length (transferBatch ?st3) \<and> length (transferBatch ?st3) < batch_size sample_env \<longrightarrow>
          inserts (finish sample_env ?t ?st3) =
            inserts ?st3 @ [call_for sample_env ?t (transferBatch ?st3) ?st3]"
    by simp
  then have "inserts (finish sample_env ?t ?st3) =
               [call_for sample_env ?t (page_rows sample_env ?p) ?st3]"
    by (simp add: batch ins len sample_env_fields)
  with main show ?thesis by (simp add: reached_def call_for_def len)
qed



text \<open>
  Claim C8, as amended. The claim says that every command-line identifier outside the
  white list ends the process with a non-zero code. That holds for an argument that
  \<^verbatim>\<open>parseInt\<close> reads as a non-zero integer \<open>n\<close>: when \<open>n\<close> is not a key of
  \<^verbatim>\<open>CHAIN_CONFIG\<close> the run is exit code 1 with the two lines "Unsupported chain ID" and
  "Available chains" on the console and nothing else done (no DDL command, no stream, no
  insert); when \<open>n\<close> is a key the run announces the chain, sets up its table and opens
  the stream. An argument read as 0 or as \<open>NaN\<close> is not rejected (claim C9).
\<close>

theorem chain_validation:
  assumes "parseInt argv2 = Num n" and "n \<noteq> 0"
  shows "(map_of CHAIN_CONFIG n = None \<longrightarrow>
            program e argv2 src =
              \<lparr>exit_code = 1,
               final = initial_state\<lparr>console := [UnsupportedChain n,
                                                  AvailableChains available_chains]\<rparr>\<rparr>) \<and>
         (\<forall>c. map_of CHAIN_CONFIG n = Some c \<longrightarrow>
            (\<exists>rest. console (final (program e argv2 src)) = Collecting (name c) n # rest) \<and>
            commands (final (program e argv2 src)) =
              [CreateDatabase, DropTable (''erc20_transfers_'' @ int_toString n),
               CreateTable (''erc20_transfers_'' @ int_toString n)] \<and>
            streaming (final (program e argv2 src)))"
proof -
  have id: "CHAIN_ID argv2 = n"
    using assms by (rule CHAIN_ID_given)
  show ?thesis
    using program_rejected [of argv2 e src] program_proceeds [of argv2 _ e src]
    by (simp add: id)
qed

text \<open>Identifier 5 is rejected before anything is set up; 8453 (Base) proceeds.\<close>

theorem chain_validation_witness:
  "program sample_env (Some ''5'') [] =
     \<lparr>exit_code = 1,
      final = \<lparr>totalEvents = 0, totalTransferValue = 0, transferBatch = [], fromBlock = 0,
               inserts = [], commands = [], streaming = False,
               console =
                 [UnsupportedChain 5,
                  AvailableChains
                    ''1 (Ethereum), 10 (Optimism), 56 (BSC), 130 (Unichain), 137 (Polygon), 480 (World Chain), 1868 (Lightlink), 8453 (Base), 42161 (Arbitrum), 43114 (Avalanche), 81457 (Blast), 7777777 (Zora)'']\<rparr>\<rparr> \<and>
   commands (final (program sample_env (Some ''8453'') [])) =
     [CreateDatabase, DropTable ''erc20_transfers_8453'', CreateTable ''erc20_transfers_8453''] \<and>
   streaming (final (program sample_env (Some ''8453'') []))"
proof -
  have n5: "map_of CHAIN_CONFIG 5 = None"
    by (simp add: CHAIN_CONFIG_def)
  have base: "map_of CHAIN_CONFIG 8453 =
                Some \<lparr>name = ''Base'', hypersyncUrl = ''http://8453.hypersync.xyz''\<rparr>"
    by (simp add: CHAIN_CONFIG_def)
  have t8453: "int_toString 8453 = ''8453''"
    by (simp add: int_toString_def nat_toString.simps digit_char_def char_of_def bit_Suc_0_iff)
  have p5: "parseInt (Some ''5'') = Num 5" and p8453: "parseInt (Some ''8453'') = Num 8453"
    by (simp_all add: parseInt_samples)
  from chain_validation [OF p5, of sample_env "[]"] chain_validation [OF p8453, of sample_env "[]"]
  show ?thesis by (simp add: n5 base t8453 initial_state_def available_chains_text)
qed

text \<open>
  The claim as stated fails for the identifier 0: it is not in the white list, yet
  \<^verbatim>\<open>parseInt("0") || 130\<close> is 130, so the run sets up the Unichain table, streams, and
  ends with exit code 0.
\<close>

theorem chain_validation_counterexample:
  "parseInt (Some ''0'') = Num 0 \<and> map_of CHAIN_CONFIG 0 = None \<and>
   exit_code (program sample_env (Some ''0'') []) = 0 \<and>
   commands (final (program sample_env (Some ''0'') [])) =
     [CreateDatabase, DropTable ''erc20_transfers_130'', CreateTable ''erc20_transfers_130''] \<and>
   streaming (final (program sample_env (Some ''0'') []))"
proof -
  have id: "CHAIN_ID (Some ''0'') = 130"
    by (simp add: CHAIN_ID_def parseInt_samples)
  have listed: "map_of CHAIN_CONFIG (CHAIN_ID (Some ''0'')) =
                  Some \<lparr>name = ''Unichain'', hypersyncUrl = ''http://130.hypersync.xyz''\<rparr>"
    by (simp add: id Unichain_listed)
  from program_proceeds [OF listed, of sample_env "[]"]
    exit_code_pages [OF listed, of sample_env "[]"]
  show ?thesis by (simp add: id int_toString_130 parseInt_samples CHAIN_CONFIG_def)
qed

text \<open>
  Claim C9. When \<^verbatim>\<open>parseInt\<close> of the argument is \<open>NaN\<close> (as it is for a missing
  argument) or 0, \<^verbatim>\<open>CHAIN_ID\<close> is 130 and the run is the run for the argument "130":
  its first console line announces Unichain, no "Unsupported chain" line is printed, the
  table of chain 130 is set up and the stream is opened; a stream that ends without a
  rejection gives exit code 0.
\<close>

theorem default_chain:
  assumes "parseInt argv2 = NaN \<or> parseInt argv2 = Num 0"
  shows "CHAIN_ID argv2 = 130 \<and>
         program e argv2 src = program e (Some ''130'') src \<and>
         (\<exists>rest. console (final (program e argv2 src)) = Collecting ''Unichain'' 130 # rest) \<and>
         commands (final (program e argv2 src)) =
           [CreateDatabase, DropTable ''erc20_transfers_130'', CreateTable ''erc20_transfers_130''] \<and>
         streaming (final (program e argv2 src)) \<and>
         exit_code (program e argv2 (map Res pages)) = 0"
proof -
  have id: "CHAIN_ID argv2 = 130"
    using assms by (rule CHAIN_ID_default)
  have "CHAIN_ID (Some ''130'') = 130"
    by (simp add: CHAIN_ID_def parseInt_samples)
  with id have same: "program e argv2 src = program e (Some ''130'') src"
    by (intro program_by_CHAIN_ID) simp
  have listed: "map_of CHAIN_CONFIG (CHAIN_ID argv2) =
                  Some \<lparr>name = ''Unichain'', hypersyncUrl = ''http://130.hypersync.xyz''\<rparr>"
    by (simp add: id Unichain_listed)
  from program_proceeds [OF listed, of e src] exit_code_pages [OF listed, of e pages] id same
  show ?thesis by (simp add: int_toString_130)
qed

text \<open>A missing argument, "abc" and "0" all select chain 130.\<close>

theorem default_chain_witness:
  "parseInt None = NaN \<and> CHAIN_ID None = 130 \<and>
   parseInt (Some ''abc'') = NaN \<and> CHAIN_ID (Some ''abc'') = 130 \<and>
   parseInt (Some ''0'') = Num 0 \<and> CHAIN_ID (Some ''0'') = 130 \<and>
   commands (final (program sample_env None [])) =
     [CreateDatabase, DropTable ''erc20_transfers_130'', CreateTable ''erc20_transfers_130''] \<and>
   exit_code (program sample_env None []) = 0"
proof -
  have h1: "parseInt None = NaN \<or> parseInt None = Num 0"
    and h2: "parseInt (Some ''abc'') = NaN \<or> parseInt (Some ''abc'') = Num 0"
    and h3: "parseInt (Some ''0'') = NaN \<or> parseInt (Some ''0'') = Num 0"
    by (simp_all add: parseInt_samples)
  from default_chain [OF h1, of sample_env "[]" "[]"]
  have "CHAIN_ID None = 130 \<and>
        commands (final (program sample_env None [])) =
          [CreateDatabase, DropTable ''erc20_transfers_130'', CreateTable ''erc20_transfers_130''] \<and>
        exit_code (program sample_env None (map Res [])) = 0"
    by (elim conjE) (intro conjI; assumption)
  moreover from default_chain [OF h2, of sample_env "[]" "[]"]
  have "CHAIN_ID (Some ''abc'') = 130" by (rule conjunct1)
  moreover from default_chain [OF h3, of sample_env "[]" "[]"]
  have "CHAIN_ID (Some ''0'') = 130" by (rule conjunct1)
  ultimately show ?thesis by (simp add: parseInt_samples)
qed

text \<open>
  Claim C10. A decoded log that is not \<^verbatim>\<open>null\<close> always appends one row. With no first
  (second) indexed slot the from (to) address is "0x0"; with no body slot the value is
  "0"; a log without address, log index or transaction hash gets "0x0", 0 and "0x0".
\<close>

theorem missing_fields_default:
  "transferBatch (snd (process_log bn bt (Some ev) (Some l) (p, st))) =
     transferBatch st @ [make_record bn bt ev l] \<and>
   (indexed ev = [] \<longrightarrow> from_address (make_record bn bt ev l) = ''0x0'') \<and>
   (length (indexed ev) < 2 \<longrightarrow> to_address (make_record bn bt ev l) = ''0x0'') \<and>
   (body ev = [] \<longrightarrow> value_str (make_record bn bt ev l) = ''0'') \<and>
   (address l = None \<longrightarrow> contract_address (make_record bn bt ev l) = ''0x0'') \<and>
   (logIndex l = None \<longrightarrow> log_index (make_record bn bt ev l) = 0) \<and>
   (transactionHash l = None \<longrightarrow> transaction_hash (make_record bn bt ev l) = ''0x0'')"
  by (simp add: Let_def make_record_def or_text_def or_number_def slot_def transfer_value_def
      int_toString_0)

text \<open>An event and a log with nothing in them still give a row, all defaults.\<close>

theorem missing_fields_default_witness:
  "transferBatch (snd (process_log 7 WallClock (Some bare_event) (Some bare_log)
                        (False, initial_state))) =
     [\<lparr>block_number = 7, block_timestamp = WallClock, log_index = 0,
       transaction_hash = ''0x0'', contract_address = ''0x0'', from_address = ''0x0'',
       to_address = ''0x0'', value_str = ''0''\<rparr>]"
  using missing_fields_default [of 7 WallClock bare_event bare_log False initial_state]
  by (simp add: bare_event_def bare_log_def initial_state_def make_record_def or_text_def
      or_number_def slot_def transfer_value_def int_toString_0)

end
